theory Spec2Isabelle
  imports Complex_Main
begin

section \<open>The activity-recognition service (harModelService) as a state-passing model\<close>

text \<open>
  The module keeps two module-level variables (\<open>listeners\<close>, \<open>latestActivityState\<close>)
  and one singleton object of class \<open>HARModelService\<close>. All three are gathered in the
  record \<open>world\<close>; every method takes the world and returns the updated one together
  with its outcome: \<open>Inr v\<close> when the method returns \<open>v\<close>, \<open>Inl e\<close> when an
  exception leaves it.

  JavaScript numbers are modelled as real numbers plus the three non-finite values; a
  field may also be missing (\<open>undefined\<close>). Arithmetic on accepted values is exact
  real arithmetic, so the \<open>isFinite\<close> guards that the code puts around computed
  results (a magnitude, a variance, a score, a confidence) always pass here; rounding
  and overflow of IEEE doubles are outside the model. Console output is not modelled.
\<close>

subsection \<open>Values and published state\<close>

datatype jsval = JNum real | JNaN | JInfinity | JNegInfinity | JUndefined

fun typeofNumber :: "jsval \<Rightarrow> bool" where
  "typeofNumber JUndefined = False"
| "typeofNumber _ = True"

fun isFinite :: "jsval \<Rightarrow> bool" where
  "isFinite (JNum r) = True"
| "isFinite _ = False"

fun numberOf :: "jsval \<Rightarrow> real" where
  "numberOf (JNum r) = r"
| "numberOf _ = 0"

record sensor_data =
  ax :: jsval
  ay :: jsval
  az :: jsval
  gx :: jsval
  gy :: jsval
  gz :: jsval

datatype activity = IDLE | STANDING | WALKING | RUNNING | CALIBRATING

datatype anomaly_type = SUDDEN_STOP

datatype anomaly_severity = HIGH

datatype anomaly_info = Anomaly anomaly_type anomaly_severity

record activity_state =
  name :: activity
  confidence :: real
  isProtectionActive :: bool
  anomaly :: "anomaly_info option"

text \<open>
  A subscriber is a callback. It is identified by \<open>lid\<close> (the identity that the
  unsubscribe closure compares with \<open>!==\<close>); \<open>lthrows st\<close> says whether the callback
  throws when it is called with the state \<open>st\<close>.
\<close>

record listener =
  lid :: nat
  lthrows :: "activity_state \<Rightarrow> bool"

datatype exn = ListenerError nat

record settings =
  detectionSensitivity :: real

text \<open>The fields of \<open>HARModelService\<close>, as the constructor declares them.\<close>

record har =
  sensorDataBuffer :: "sensor_data list"
  lastHighMovementTime :: int
  settings :: "settings option"
  isMonitoring :: bool
  lastActivity :: activity
  activityChangeCount :: nat
  sensorUnsubscribe :: bool
  movementHistory :: "real list"
  highMovementDuration :: nat
  lastMovementLevel :: real
  consecutiveStillReadings :: nat
  lastSuddenStopTime :: int
  walkingSessionActive :: bool

text \<open>
  \<open>delivered\<close> is the trace of listener calls made so far, oldest first: the
  listener called and the state it was called with.
\<close>

record world =
  listeners :: "listener list"
  latestActivityState :: activity_state
  service :: har
  delivered :: "(nat \<times> activity_state) list"

subsection \<open>Constants\<close>

definition SENSOR_DATA_BUFFER_SIZE :: nat where
  "SENSOR_DATA_BUFFER_SIZE = 25"

definition BASE_MOVEMENT_THRESHOLD_IDLE :: real where
  "BASE_MOVEMENT_THRESHOLD_IDLE = 0.5"

definition BASE_MOVEMENT_THRESHOLD_STANDING :: real where
  "BASE_MOVEMENT_THRESHOLD_STANDING = 2.0"

definition BASE_MOVEMENT_THRESHOLD_WALKING :: real where
  "BASE_MOVEMENT_THRESHOLD_WALKING = 8.0"

definition BASE_MOVEMENT_THRESHOLD_RUNNING :: real where
  "BASE_MOVEMENT_THRESHOLD_RUNNING = 20.0"

subsection \<open>Publishing\<close>

text \<open>
  \<open>notifyListeners\<close> calls the listeners in order with the current state. There is
  no \<open>try\<close> around the call: the first callback that throws ends the loop and its
  exception leaves \<open>notifyListeners\<close>.
\<close>

fun callListeners :: "listener list \<Rightarrow> activity_state \<Rightarrow> (nat \<times> activity_state) list \<times> (exn + unit)" where
  "callListeners [] st = ([], Inr ())"
| "callListeners (l # ls) st =
     (if lthrows l st then ([(lid l, st)], Inl (ListenerError (lid l)))
      else (case callListeners ls st of (calls, r) \<Rightarrow> ((lid l, st) # calls, r)))"

definition notifyListeners :: "world \<Rightarrow> world \<times> (exn + unit)" where
  "notifyListeners w =
     (case callListeners (listeners w) (latestActivityState w) of
        (calls, r) \<Rightarrow> (w\<lparr>delivered := delivered w @ calls\<rparr>, r))"

text \<open>\<open>notifyListeners(); return latestActivityState;\<close>\<close>

definition notifyAndReturn :: "world \<Rightarrow> world \<times> (exn + activity_state)" where
  "notifyAndReturn w =
     (case notifyListeners w of
        (w', Inl e) \<Rightarrow> (w', Inl e)
      | (w', Inr u) \<Rightarrow> (w', Inr (latestActivityState w')))"

definition subscribeToActivity :: "listener \<Rightarrow> world \<Rightarrow> world \<times> (exn + unit)" where
  "subscribeToActivity callback w =
     (let w1 = w\<lparr>listeners := listeners w @ [callback]\<rparr>;
          w2 = w1\<lparr>delivered := delivered w1 @ [(lid callback, latestActivityState w1)]\<rparr>
      in if lthrows callback (latestActivityState w1)
         then (w2, Inl (ListenerError (lid callback)))
         else (w2, Inr ()))"

definition unsubscribeFromActivity :: "listener \<Rightarrow> world \<Rightarrow> world" where
  "unsubscribeFromActivity callback w =
     w\<lparr>listeners := filter (\<lambda>l. lid l \<noteq> lid callback) (listeners w)\<rparr>"

definition getLatestActivity :: "world \<Rightarrow> activity_state" where
  "getLatestActivity w = latestActivityState w"

subsection \<open>Lifecycle\<close>

definition initialActivityState :: activity_state where
  "initialActivityState =
     \<lparr>name = IDLE, confidence = 1.0, isProtectionActive = False, anomaly = None\<rparr>"

text \<open>
  The constructor. \<open>_refreshSettings\<close> is asynchronous, so \<open>settings\<close> is still
  \<open>null\<close> when the constructor returns; \<open>refreshSettings\<close> is the later assignment.
\<close>

definition newService :: har where
  "newService =
     \<lparr>sensorDataBuffer = [], lastHighMovementTime = 0, settings = None,
      isMonitoring = False, lastActivity = IDLE, activityChangeCount = 0,
      sensorUnsubscribe = False, movementHistory = [], highMovementDuration = 0,
      lastMovementLevel = 0, consecutiveStillReadings = 0, lastSuddenStopTime = 0,
      walkingSessionActive = False\<rparr>"

definition initialWorld :: world where
  "initialWorld =
     \<lparr>listeners = [], latestActivityState = initialActivityState,
      service = newService, delivered = []\<rparr>"

definition refreshSettings :: "settings \<Rightarrow> world \<Rightarrow> world" where
  "refreshSettings s w = w\<lparr>service := (service w)\<lparr>settings := Some s\<rparr>\<rparr>"

text \<open>
  \<open>start\<close>: the subscription to the sensor feed is made in the continuation of a
  dynamic import, after \<open>start\<close> has returned (\<open>sensorSubscribed\<close>).
\<close>

definition start :: "world \<Rightarrow> world \<times> (exn + unit)" where
  "start w =
     notifyListeners
       (w\<lparr>service := (service w)\<lparr>isMonitoring := True\<rparr>,
          latestActivityState := (latestActivityState w)\<lparr>isProtectionActive := True\<rparr>\<rparr>)"

definition sensorSubscribed :: "world \<Rightarrow> world" where
  "sensorSubscribed w = w\<lparr>service := (service w)\<lparr>sensorUnsubscribe := True\<rparr>\<rparr>"

definition stop :: "world \<Rightarrow> world \<times> (exn + unit)" where
  "stop w =
     notifyListeners
       (w\<lparr>service := (service w)\<lparr>isMonitoring := False, sensorDataBuffer := [],
                                   sensorUnsubscribe := False\<rparr>,
          latestActivityState :=
            \<lparr>name = IDLE, confidence = 1.0, isProtectionActive = False, anomaly = None\<rparr>\<rparr>)"

subsection \<open>Signal statistics\<close>

text \<open>
  \<open>_calculateMagnitude\<close>: a non-finite coordinate counts as 0. \<open>reduce\<close> with an
  initial value is \<open>foldl\<close>.
\<close>

definition calculateMagnitude :: "jsval \<Rightarrow> jsval \<Rightarrow> jsval \<Rightarrow> real" where
  "calculateMagnitude x y z =
     (let validX = (if isFinite x then numberOf x else 0);
          validY = (if isFinite y then numberOf y else 0);
          validZ = (if isFinite z then numberOf z else 0)
      in sqrt (validX * validX + validY * validY + validZ * validZ))"

definition calculateVariance :: "real list \<Rightarrow> real" where
  "calculateVariance arr =
     (if length arr < 2 then 0
      else (let mean = foldl (+) 0 arr / real (length arr)
            in foldl (\<lambda>a b. a + (b - mean) ^ 2) 0 arr / real (length arr)))"

text \<open>Lines 186 to 208 of \<open>predictActivity\<close>: the movement score of the window.\<close>

definition totalMovement :: "sensor_data list \<Rightarrow> real" where
  "totalMovement buf =
     (let accelMagnitudes = map (\<lambda>d. calculateMagnitude (ax d) (ay d) (az d)) buf;
          gyroMagnitudes = map (\<lambda>d. calculateMagnitude (gx d) (gy d) (gz d)) buf;
          meanAccel = (if length accelMagnitudes > 0
                       then foldl (+) 0 accelMagnitudes / real (length accelMagnitudes)
                       else 0);
          accelWithoutGravity = map (\<lambda>mag. \<bar>mag - meanAccel\<bar>) accelMagnitudes;
          accelVariance = calculateVariance accelWithoutGravity;
          gyroVariance = calculateVariance gyroMagnitudes
      in (accelVariance * 15) + (gyroVariance * 85))"

subsection \<open>Thresholds and classification\<close>

record thresholds =
  MOVEMENT_THRESHOLD_IDLE :: real
  MOVEMENT_THRESHOLD_STANDING :: real
  MOVEMENT_THRESHOLD_WALKING :: real
  MOVEMENT_THRESHOLD_RUNNING :: real

definition adjustedThresholds :: "real \<Rightarrow> thresholds" where
  "adjustedThresholds sensitivity =
     (let modifier = 1 - sensitivity
      in \<lparr>MOVEMENT_THRESHOLD_IDLE = BASE_MOVEMENT_THRESHOLD_IDLE * (1 + modifier * 0.6),
          MOVEMENT_THRESHOLD_STANDING = BASE_MOVEMENT_THRESHOLD_STANDING * (1 + modifier * 0.6),
          MOVEMENT_THRESHOLD_WALKING = BASE_MOVEMENT_THRESHOLD_WALKING * (1 + modifier * 0.4),
          MOVEMENT_THRESHOLD_RUNNING = BASE_MOVEMENT_THRESHOLD_RUNNING * (1 + modifier * 0.3)\<rparr>)"

text \<open>
  Lines 212 to 245: the cascade of comparisons, giving the raw activity and confidence.
  In the running branch the quotient by a zero threshold is not finite in JavaScript and
  the code falls back to 0.75; the other quotients are guarded by the code itself.
\<close>

definition classify :: "thresholds \<Rightarrow> real \<Rightarrow> activity \<times> real" where
  "classify t validTotalMovement =
     (if validTotalMovement > MOVEMENT_THRESHOLD_RUNNING t then
        (let excessMovement = validTotalMovement - MOVEMENT_THRESHOLD_RUNNING t;
             confidenceCalc = (if MOVEMENT_THRESHOLD_RUNNING t = 0 then 0.75
                               else 0.75 + (excessMovement / MOVEMENT_THRESHOLD_RUNNING t) * 0.2)
         in (RUNNING, min 0.95 confidenceCalc))
      else if validTotalMovement > MOVEMENT_THRESHOLD_WALKING t then
        (let walkingRange = MOVEMENT_THRESHOLD_RUNNING t - MOVEMENT_THRESHOLD_WALKING t;
             walkingProgress = (if walkingRange > 0
                                then (validTotalMovement - MOVEMENT_THRESHOLD_WALKING t) / walkingRange
                                else 0);
             confidenceCalc = 0.65 + walkingProgress * 0.27
         in (WALKING, min 0.92 confidenceCalc))
      else if validTotalMovement > MOVEMENT_THRESHOLD_STANDING t then
        (let standingRange = MOVEMENT_THRESHOLD_WALKING t - MOVEMENT_THRESHOLD_STANDING t;
             standingProgress = (if standingRange > 0
                                 then (validTotalMovement - MOVEMENT_THRESHOLD_STANDING t) / standingRange
                                 else 0);
             confidenceCalc = 0.55 + standingProgress * 0.33
         in (STANDING, min 0.88 confidenceCalc))
      else if validTotalMovement > MOVEMENT_THRESHOLD_IDLE t then
        (let lightRange = MOVEMENT_THRESHOLD_STANDING t - MOVEMENT_THRESHOLD_IDLE t;
             lightProgress = (if lightRange > 0
                              then (validTotalMovement - MOVEMENT_THRESHOLD_IDLE t) / lightRange
                              else 0);
             confidenceCalc = 0.45 + lightProgress * 0.37
         in (STANDING, min 0.82 confidenceCalc))
      else
        (let idleRatio = (if MOVEMENT_THRESHOLD_IDLE t > 0
                          then min 1.0 (validTotalMovement / MOVEMENT_THRESHOLD_IDLE t)
                          else 0);
             confidenceCalc = 0.95 - idleRatio * 0.25
         in (IDLE, max 0.7 confidenceCalc)))"

subsection \<open>Smoothing\<close>

text \<open>
  Lines 247 to 269. The comparison is with the field \<open>lastActivity\<close> of the service,
  not with the published state.
\<close>

definition smoothActivity :: "activity \<Rightarrow> real \<Rightarrow> har \<Rightarrow> activity \<times> real \<times> har" where
  "smoothActivity activity conf h =
     (if activity \<noteq> lastActivity h then
        (let h1 = h\<lparr>activityChangeCount := activityChangeCount h + 1\<rparr>;
             needsSmoothing =
               ((lastActivity h1 = IDLE \<and> activity = STANDING \<and> activityChangeCount h1 < 3) \<or>
                (lastActivity h1 = STANDING \<and> activity = IDLE \<and> activityChangeCount h1 < 3) \<or>
                (lastActivity h1 = STANDING \<and> activity = WALKING \<and> activityChangeCount h1 < 2) \<or>
                (lastActivity h1 = WALKING \<and> activity = STANDING \<and> activityChangeCount h1 < 2))
         in if needsSmoothing
            then (lastActivity h1, max 0.3 (conf - 0.3), h1)
            else (activity, conf, h1\<lparr>lastActivity := activity, activityChangeCount := 0\<rparr>))
      else (activity, conf, h\<lparr>activityChangeCount := 0\<rparr>))"

subsection \<open>Sudden-stop detection\<close>

text \<open>
  \<open>Array.prototype.slice\<close> with its relative (negative) indices; \<open>None\<close> is an
  omitted end.
\<close>

definition slice :: "'a list \<Rightarrow> int \<Rightarrow> int option \<Rightarrow> 'a list" where
  "slice xs s e =
     (let len = int (length xs);
          k = (if s < 0 then max (len + s) 0 else min s len);
          fin = (case e of None \<Rightarrow> len
                 | Some e' \<Rightarrow> if e' < 0 then max (len + e') 0 else min e' len)
      in take (nat (fin - k)) (drop (nat k) xs))"

text \<open>Lines 273 to 276: append the score, keep the last 100.\<close>

definition pushMovement :: "real \<Rightarrow> har \<Rightarrow> har" where
  "pushMovement m h =
     (let hist = movementHistory h @ [m]
      in h\<lparr>movementHistory := (if length hist > 100 then tl hist else hist)\<rparr>)"

text \<open>Lines 278 to 297: the walking-session bookkeeping.\<close>

definition trackSession :: "activity \<Rightarrow> har \<Rightarrow> har" where
  "trackSession activity h =
     (let isHighMovement = (activity = WALKING \<or> activity = RUNNING);
          isStill = (activity = IDLE)
      in if isHighMovement then
           (let h1 = h\<lparr>highMovementDuration := highMovementDuration h + 1,
                       consecutiveStillReadings := 0\<rparr>
            in if \<not> walkingSessionActive h1 \<and> highMovementDuration h1 > 30
               then h1\<lparr>walkingSessionActive := True\<rparr>
               else h1)
         else if isStill then
           (let h1 = h\<lparr>consecutiveStillReadings := consecutiveStillReadings h + 1\<rparr>
            in if consecutiveStillReadings h1 > 30
               then h1\<lparr>highMovementDuration := 0, walkingSessionActive := False\<rparr>
               else h1)
         else h\<lparr>consecutiveStillReadings := 0\<rparr>)"

text \<open>
  The test \<open>movementDrop > 0.9\<close>. With \<open>avgPrevious = 0\<close> the quotient is
  \<open>NaN\<close> or an infinity in JavaScript, and exceeds 0.9 only when it is \<open>+Infinity\<close>.
\<close>

definition movementDropExceeds :: "real \<Rightarrow> real \<Rightarrow> bool" where
  "movementDropExceeds avgPrevious avgRecent =
     (if avgPrevious = 0 then avgPrevious - avgRecent > 0
      else (avgPrevious - avgRecent) / avgPrevious > 0.9)"

text \<open>
  Lines 300 to 334. \<open>now\<close> is the clock reading of line 280 and \<open>now'\<close> the one of
  line 330. The three averages divide by the lengths 3, 10 and 30, since the history
  holds at least 50 entries there.
\<close>

definition detectSuddenStop :: "thresholds \<Rightarrow> int \<Rightarrow> int \<Rightarrow> har \<Rightarrow> anomaly_info option \<times> har" where
  "detectSuddenStop t now now' h =
     (let timeSinceLastTrigger = now - lastSuddenStopTime h
      in if length (movementHistory h) \<ge> 50 \<and> walkingSessionActive h \<and>
            highMovementDuration h \<ge> 50 \<and> timeSinceLastTrigger > 30000
         then
           (let recentMovement = slice (movementHistory h) (- 3) None;
                previousMovement = slice (movementHistory h) (- 20) (Some (- 10));
                longTermMovement = slice (movementHistory h) (- 50) (Some (- 20));
                avgRecent = foldl (+) 0 recentMovement / real (length recentMovement);
                avgPrevious = foldl (+) 0 previousMovement / real (length previousMovement);
                avgLongTerm = foldl (+) 0 longTermMovement / real (length longTermMovement);
                consistentHighMovement =
                  (avgLongTerm > MOVEMENT_THRESHOLD_WALKING t * 1.5 \<and>
                   avgPrevious > MOVEMENT_THRESHOLD_WALKING t * 1.5)
            in if movementDropExceeds avgPrevious avgRecent \<and> consistentHighMovement \<and>
                  avgRecent < MOVEMENT_THRESHOLD_IDLE t * 2 \<and>
                  avgPrevious > MOVEMENT_THRESHOLD_RUNNING t * 0.8
               then (Some (Anomaly SUDDEN_STOP HIGH),
                     h\<lparr>lastSuddenStopTime := now', highMovementDuration := 0,
                       walkingSessionActive := False\<rparr>)
               else (None, h))
         else (None, h))"

subsection \<open>predictActivity\<close>

text \<open>
  \<open>confidence.toFixed(2)\<close> read back with \<open>parseFloat\<close>: the nearest multiple of
  0.01, a tie going away from zero.
\<close>

definition toFixed2 :: "real \<Rightarrow> real" where
  "toFixed2 x =
     (if x < 0 then - (real_of_int \<lfloor>- x * 100 + 1 / 2\<rfloor> / 100)
      else real_of_int \<lfloor>x * 100 + 1 / 2\<rfloor> / 100)"

definition requiredFields :: "(sensor_data \<Rightarrow> jsval) list" where
  "requiredFields = [ax, ay, az, gx, gy, gz]"

text \<open>Lines 161 to 164: append the sample, drop the oldest one beyond the window size.\<close>

definition pushSample :: "sensor_data \<Rightarrow> sensor_data list \<Rightarrow> sensor_data list" where
  "pushSample d buf =
     (if length (buf @ [d]) > SENSOR_DATA_BUFFER_SIZE then tl (buf @ [d]) else buf @ [d])"

text \<open>
  Lines 175 to 297: the tick on a full window up to the session bookkeeping. The result
  is the activity and confidence to publish and the service as the sudden-stop test
  finds it.
\<close>

definition beforeDetection :: "settings \<Rightarrow> world \<Rightarrow> activity \<times> real \<times> har" where
  "beforeDetection s w =
     (let t = adjustedThresholds (detectionSensitivity s);
          score = totalMovement (sensorDataBuffer (service w));
          (activity, conf, h1) =
             smoothActivity (fst (classify t score)) (snd (classify t score)) (service w);
          h2 = pushMovement score h1;
          h3 = trackSession activity h2
      in (activity, conf, h3))"

text \<open>
  Lines 299 to 343: the sudden-stop test and the assignment of
  \<open>latestActivityState\<close>; the call of \<open>notifyListeners\<close> and the
  \<open>return\<close> follow in \<open>predictActivity\<close>.
\<close>

definition classifyWindow :: "settings \<Rightarrow> int \<Rightarrow> int \<Rightarrow> world \<Rightarrow> world" where
  "classifyWindow s now now' w =
     (let t = adjustedThresholds (detectionSensitivity s);
          (activity, conf, h3) = beforeDetection s w;
          (anom, h4) = detectSuddenStop t now now' h3
      in w\<lparr>service := h4,
           latestActivityState :=
             \<lparr>name = activity, confidence = toFixed2 conf,
              isProtectionActive = isMonitoring h4, anomaly = anom\<rparr>\<rparr>)"

text \<open>
  \<open>predictActivity(sensorData)\<close>; \<open>None\<close> is an argument that is not an object.
  The test \<open>!this.settings || !this.isMonitoring\<close> is written as a case
  distinction on \<open>settings\<close>, so that the sensitivity is at hand afterwards.
\<close>

definition predictActivity :: "sensor_data option \<Rightarrow> int \<Rightarrow> int \<Rightarrow> world \<Rightarrow> world \<times> (exn + activity_state)" where
  "predictActivity sensorData now now' w =
     (case sensorData of
        None \<Rightarrow> (w, Inr (latestActivityState w))
      | Some d \<Rightarrow>
        if list_ex (\<lambda>field. \<not> typeofNumber (field d) \<or> \<not> isFinite (field d)) requiredFields
        then (w, Inr (latestActivityState w))
        else (case settings (service w) of
          None \<Rightarrow>
            (let activityName = (if isMonitoring (service w) then CALIBRATING else IDLE)
             in if name (latestActivityState w) \<noteq> activityName
                then notifyAndReturn
                       (w\<lparr>latestActivityState :=
                            (latestActivityState w)\<lparr>name := activityName, confidence := 0.5\<rparr>\<rparr>)
                else (w, Inr (latestActivityState w)))
        | Some s \<Rightarrow>
            if \<not> isMonitoring (service w) then
              (if name (latestActivityState w) \<noteq> IDLE
               then notifyAndReturn
                      (w\<lparr>latestActivityState :=
                           (latestActivityState w)\<lparr>name := IDLE, confidence := 0.5\<rparr>\<rparr>)
               else (w, Inr (latestActivityState w)))
            else
              (let w1 = w\<lparr>service := (service w)
                            \<lparr>sensorDataBuffer := pushSample d (sensorDataBuffer (service w))\<rparr>\<rparr>
               in if length (sensorDataBuffer (service w1)) < SENSOR_DATA_BUFFER_SIZE then
                    (if name (latestActivityState w1) \<noteq> CALIBRATING
                     then notifyAndReturn
                            (w1\<lparr>latestActivityState :=
                                  (latestActivityState w1)\<lparr>name := CALIBRATING, confidence := 0.5\<rparr>\<rparr>)
                     else (w1, Inr (latestActivityState w1)))
                  else notifyAndReturn (classifyWindow s now now' w1))))"

text \<open>
  What can happen to the module between two samples: the public calls, the settings
  refresh and the completion of the sensor subscription.
\<close>

datatype event =
    Sample "sensor_data option" int int
  | Start
  | Stop
  | Refresh settings
  | Subscribe listener
  | Unsubscribe listener
  | SensorSubscribed

fun step :: "event \<Rightarrow> world \<Rightarrow> world" where
  "step (Sample d now now') w = fst (predictActivity d now now' w)"
| "step Start w = fst (start w)"
| "step Stop w = fst (stop w)"
| "step (Refresh s) w = refreshSettings s w"
| "step (Subscribe l) w = fst (subscribeToActivity l w)"
| "step (Unsubscribe l) w = unsubscribeFromActivity l w"
| "step SensorSubscribed w = sensorSubscribed w"

fun run :: "event list \<Rightarrow> world \<Rightarrow> world" where
  "run [] w = w"
| "run (e # es) w = run es (step e w)"

text \<open>Samples delivered one after the other with the clock at \<open>t\<close>.\<close>

definition samplesAt :: "int \<Rightarrow> sensor_data list \<Rightarrow> event list" where
  "samplesAt t ds = map (\<lambda>d. Sample (Some d) t t) ds"

section \<open>Notions used to state the properties\<close>

text \<open>
  A field is rejected by the validation of \<open>predictActivity\<close> when it is missing or
  not a finite number; a sample is accepted when none of its six fields is.
\<close>

definition missingOrNonFinite :: "jsval \<Rightarrow> bool" where
  "missingOrNonFinite v = (v = JUndefined \<or> v = JNaN \<or> v = JInfinity \<or> v = JNegInfinity)"

definition acceptedSample :: "sensor_data \<Rightarrow> bool" where
  "acceptedSample d =
     (\<not> missingOrNonFinite (ax d) \<and> \<not> missingOrNonFinite (ay d) \<and> \<not> missingOrNonFinite (az d) \<and>
      \<not> missingOrNonFinite (gx d) \<and> \<not> missingOrNonFinite (gy d) \<and> \<not> missingOrNonFinite (gz d))"

text \<open>
  A completed classification tick: the call of \<open>predictActivity\<close> reaches the
  classification, that is, the sample is accepted, the service is monitoring with its
  settings loaded, and the window is full once the sample is pushed.
\<close>

definition classificationTick :: "sensor_data \<Rightarrow> world \<Rightarrow> bool" where
  "classificationTick d w =
     (acceptedSample d \<and> isMonitoring (service w) \<and> settings (service w) \<noteq> None \<and>
      SENSOR_DATA_BUFFER_SIZE \<le> length (sensorDataBuffer (service w)) + 1)"

text \<open>A run of events none of which is a completed classification tick.\<close>

fun noClassification :: "event list \<Rightarrow> world \<Rightarrow> bool" where
  "noClassification [] w = True"
| "noClassification (Sample (Some d) now now' # es) w =
     (\<not> classificationTick d w \<and> noClassification es (step (Sample (Some d) now now') w))"
| "noClassification (e # es) w = noClassification es (step e w)"





text \<open>Mean and (population) variance of a list, and the Euclidean norm, as the specification names them.\<close>

definition mean :: "real list \<Rightarrow> real" where
  "mean xs = sum_list xs / real (length xs)"

definition populationVariance :: "real list \<Rightarrow> real" where
  "populationVariance xs = (\<Sum>x\<leftarrow>xs. (x - mean xs)\<^sup>2) / real (length xs)"

definition signalVectorMagnitude :: "real \<Rightarrow> real \<Rightarrow> real \<Rightarrow> real" where
  "signalVectorMagnitude x y z = sqrt (x\<^sup>2 + y\<^sup>2 + z\<^sup>2)"

text \<open>The magnitudes of a window and their gravity correction.\<close>

definition accelMagnitudesOf :: "sensor_data list \<Rightarrow> real list" where
  "accelMagnitudesOf buf =
     map (\<lambda>d. signalVectorMagnitude (numberOf (ax d)) (numberOf (ay d)) (numberOf (az d))) buf"

definition gyroMagnitudesOf :: "sensor_data list \<Rightarrow> real list" where
  "gyroMagnitudesOf buf =
     map (\<lambda>d. signalVectorMagnitude (numberOf (gx d)) (numberOf (gy d)) (numberOf (gz d))) buf"

definition gravityCorrected :: "real list \<Rightarrow> real list" where
  "gravityCorrected ms = map (\<lambda>m. \<bar>m - mean ms\<bar>) ms"

text \<open>
  The three windows of the movement history that the sudden-stop test compares: the
  last 3 scores, the 10 scores that end 10 ticks back, the 30 scores before those.
\<close>

definition recentWindow :: "real list \<Rightarrow> real list" where
  "recentWindow hist = drop (length hist - 3) hist"

definition priorWindow :: "real list \<Rightarrow> real list" where
  "priorWindow hist = take 10 (drop (length hist - 20) hist)"

definition longTermWindow :: "real list \<Rightarrow> real list" where
  "longTermWindow hist = take 30 (drop (length hist - 50) hist)"

text \<open>
  The service as the sudden-stop test of a completed tick finds it: the sample is in the
  window, the score of the window is appended to the history and the session counters
  are updated.
\<close>

definition detectionInput :: "settings \<Rightarrow> sensor_data \<Rightarrow> world \<Rightarrow> har" where
  "detectionInput s d w =
     snd (snd (beforeDetection s
       (w\<lparr>service := (service w)
            \<lparr>sensorDataBuffer := pushSample d (sensorDataBuffer (service w))\<rparr>\<rparr>)))"


text \<open>
  The raw classification of a completed tick: the cascade applied to the score of the
  window that holds the new sample.
\<close>

definition rawClassification :: "settings \<Rightarrow> sensor_data \<Rightarrow> world \<Rightarrow> activity \<times> real" where
  "rawClassification s d w =
     classify (adjustedThresholds (detectionSensitivity s))
       (totalMovement (pushSample d (sensorDataBuffer (service w))))"


text \<open>The five branches of the classification cascade.\<close>

datatype bracket = AboveRunning | WalkingToRunning | StandingToWalking | IdleToStanding | UpToIdle

definition bracketOf :: "thresholds \<Rightarrow> real \<Rightarrow> bracket" where
  "bracketOf t m =
     (if m > MOVEMENT_THRESHOLD_RUNNING t then AboveRunning
      else if m > MOVEMENT_THRESHOLD_WALKING t then WalkingToRunning
      else if m > MOVEMENT_THRESHOLD_STANDING t then StandingToWalking
      else if m > MOVEMENT_THRESHOLD_IDLE t then IdleToStanding
      else UpToIdle)"

subsection \<open>Concrete inputs\<close>

definition zeroSample :: sensor_data where
  "zeroSample = \<lparr>ax = JNum 0, ay = JNum 0, az = JNum 0, gx = JNum 0, gy = JNum 0, gz = JNum 0\<rparr>"

definition spinSample :: sensor_data where
  "spinSample = \<lparr>ax = JNum 0, ay = JNum 0, az = JNum 0, gx = JNum 0, gy = JNum 0, gz = JNum 1\<rparr>"

definition brokenSample :: sensor_data where
  "brokenSample = \<lparr>ax = JNum 0, ay = JNum 0, az = JNum 0, gx = JNum 0, gy = JNaN, gz = JNum 1\<rparr>"

definition highSensitivity :: settings where
  "highSensitivity = \<lparr>detectionSensitivity = 1\<rparr>"

definition quietListener :: listener where
  "quietListener = \<lparr>lid = 1, lthrows = (\<lambda>st. False)\<rparr>"

definition faultyListener :: listener where
  "faultyListener = \<lparr>lid = 0, lthrows = (\<lambda>st. True)\<rparr>"

definition loadedWorld :: world where
  "loadedWorld = refreshSettings highSensitivity initialWorld"

text \<open>
  A first session: the service is started and receives 25 samples, the last five with
  a rotation rate of 1; the single classification tick sees a score of 13.6. The
  service is then stopped, started again, and receives 24 samples at rest.
\<close>

definition startedWorld :: world where
  "startedWorld = fst (start loadedWorld)"

definition calibratedWorld :: world where
  "calibratedWorld =
     run (samplesAt 1000 (replicate 20 zeroSample @ replicate 4 spinSample)) startedWorld"

definition walkedWorld :: world where
  "walkedWorld = fst (predictActivity (Some spinSample) 1000 1000 calibratedWorld)"



text \<open>
  A service at rest after a run: the window holds samples at rest, the history holds 47
  scores of 20 followed by two scores of 0, and the session counters say that a walking
  session of 50 high-movement ticks is active. \<open>boundaryWorld\<close> differs in its
  history only: the 30 oldest scores are 12, which is 1.5 times the walking threshold at
  sensitivity 1.
\<close>

definition aboutToStopWorld :: world where
  "aboutToStopWorld =
     \<lparr>listeners = [],
      latestActivityState =
        \<lparr>name = IDLE, confidence = 95 / 100, isProtectionActive = True, anomaly = None\<rparr>,
      service = newService
        \<lparr>sensorDataBuffer := zeroSample # replicate 24 zeroSample,
         settings := Some highSensitivity, isMonitoring := True,
         movementHistory := replicate 47 20 @ [0, 0], highMovementDuration := 50,
         consecutiveStillReadings := 2, walkingSessionActive := True\<rparr>,
      delivered = []\<rparr>"

definition firedWorld :: world where
  "firedWorld = fst (predictActivity (Some zeroSample) 100000 100005 aboutToStopWorld)"

definition boundaryWorld :: world where
  "boundaryWorld =
     aboutToStopWorld\<lparr>service := (service aboutToStopWorld)
       \<lparr>movementHistory := replicate 30 12 @ replicate 17 20 @ [0, 0]\<rparr>\<rparr>"


definition lateListener :: listener where
  "lateListener = \<lparr>lid = 2, lthrows = (\<lambda>st. False)\<rparr>"

text \<open>Three subscribers; the second one throws whenever it is called.\<close>

definition subscribedWorld :: world where
  "subscribedWorld =
     fst (subscribeToActivity lateListener
       (fst (subscribeToActivity faultyListener
         (fst (subscribeToActivity quietListener loadedWorld)))))"

section \<open>Properties\<close>

subsection \<open>Thresholds\<close>

lemma base_thresholds:
  "BASE_MOVEMENT_THRESHOLD_IDLE = 1 / 2" "BASE_MOVEMENT_THRESHOLD_STANDING = 2"
  "BASE_MOVEMENT_THRESHOLD_WALKING = 8" "BASE_MOVEMENT_THRESHOLD_RUNNING = 20"
  by (simp_all add: BASE_MOVEMENT_THRESHOLD_IDLE_def BASE_MOVEMENT_THRESHOLD_STANDING_def
      BASE_MOVEMENT_THRESHOLD_WALKING_def BASE_MOVEMENT_THRESHOLD_RUNNING_def)

lemma adjustedThresholds_sel:
  "MOVEMENT_THRESHOLD_IDLE (adjustedThresholds s) = (1 + (1 - s) * (6 / 10)) / 2"
  "MOVEMENT_THRESHOLD_STANDING (adjustedThresholds s) = 2 * (1 + (1 - s) * (6 / 10))"
  "MOVEMENT_THRESHOLD_WALKING (adjustedThresholds s) = 8 * (1 + (1 - s) * (4 / 10))"
  "MOVEMENT_THRESHOLD_RUNNING (adjustedThresholds s) = 20 * (1 + (1 - s) * (3 / 10))"
  by (simp_all add: adjustedThresholds_def base_thresholds Let_def)

text \<open>
  C6. Each threshold is its base value times \<open>1 + (1 - sensitivity) * k\<close>, with
  \<open>k\<close> = 0.6 for idle and standing, 0.4 for walking and 0.3 for running; hence a
  lower sensitivity never gives a lower threshold.
\<close>

theorem thresholds_scale_with_sensitivity:
  "MOVEMENT_THRESHOLD_IDLE (adjustedThresholds s) =
     BASE_MOVEMENT_THRESHOLD_IDLE * (1 + (1 - s) * 0.6) \<and>
   MOVEMENT_THRESHOLD_STANDING (adjustedThresholds s) =
     BASE_MOVEMENT_THRESHOLD_STANDING * (1 + (1 - s) * 0.6) \<and>
   MOVEMENT_THRESHOLD_WALKING (adjustedThresholds s) =
     BASE_MOVEMENT_THRESHOLD_WALKING * (1 + (1 - s) * 0.4) \<and>
   MOVEMENT_THRESHOLD_RUNNING (adjustedThresholds s) =
     BASE_MOVEMENT_THRESHOLD_RUNNING * (1 + (1 - s) * 0.3) \<and>
   (0 \<le> s1 \<and> s1 \<le> s2 \<and> s2 \<le> 1 \<longrightarrow>
      MOVEMENT_THRESHOLD_IDLE (adjustedThresholds s2)
        \<le> MOVEMENT_THRESHOLD_IDLE (adjustedThresholds s1) \<and>
      MOVEMENT_THRESHOLD_STANDING (adjustedThresholds s2)
        \<le> MOVEMENT_THRESHOLD_STANDING (adjustedThresholds s1) \<and>
      MOVEMENT_THRESHOLD_WALKING (adjustedThresholds s2)
        \<le> MOVEMENT_THRESHOLD_WALKING (adjustedThresholds s1) \<and>
      MOVEMENT_THRESHOLD_RUNNING (adjustedThresholds s2)
        \<le> MOVEMENT_THRESHOLD_RUNNING (adjustedThresholds s1))"
  by (simp add: adjustedThresholds_def base_thresholds Let_def)

theorem thresholds_scale_with_sensitivity_witness:
  "(0::real) \<le> 0 \<and> (0::real) \<le> 1 \<and> (1::real) \<le> 1 \<and>
   MOVEMENT_THRESHOLD_IDLE (adjustedThresholds 1) \<le> MOVEMENT_THRESHOLD_IDLE (adjustedThresholds 0) \<and>
   MOVEMENT_THRESHOLD_STANDING (adjustedThresholds 1) \<le> MOVEMENT_THRESHOLD_STANDING (adjustedThresholds 0) \<and>
   MOVEMENT_THRESHOLD_WALKING (adjustedThresholds 1) \<le> MOVEMENT_THRESHOLD_WALKING (adjustedThresholds 0) \<and>
   MOVEMENT_THRESHOLD_RUNNING (adjustedThresholds 1) \<le> MOVEMENT_THRESHOLD_RUNNING (adjustedThresholds 0) \<and>
   MOVEMENT_THRESHOLD_RUNNING (adjustedThresholds 0) = 26"
  using thresholds_scale_with_sensitivity [of 0 0 1] by (simp add: base_thresholds)

subsection \<open>Confidence within a branch of the cascade\<close>

lemma adjusted_running_pos: "s \<le> 1 \<Longrightarrow> 0 < MOVEMENT_THRESHOLD_RUNNING (adjustedThresholds s)"
  by (simp add: adjustedThresholds_def BASE_MOVEMENT_THRESHOLD_RUNNING_def Let_def)

lemma capped_mono:
  fixes p q w c k :: real
  assumes "p \<le> q" "0 \<le> w"
  shows "min c (k + p * w) \<le> min c (k + q * w)"
proof -
  have "k + p * w \<le> k + q * w" using assms by (simp add: mult_right_mono)
  then show ?thesis by (simp add: min_le_iff_disj)
qed

lemma progress_mono:
  fixes a b lo range :: real
  assumes "a \<le> b"
  shows "(if range > 0 then (a - lo) / range else 0) \<le> (if range > 0 then (b - lo) / range else 0)"
  using assms by (simp add: divide_right_mono)

lemma bracketOf_iff:
  "bracketOf t m = AboveRunning \<longleftrightarrow> MOVEMENT_THRESHOLD_RUNNING t < m"
  "bracketOf t m = WalkingToRunning \<longleftrightarrow>
     \<not> MOVEMENT_THRESHOLD_RUNNING t < m \<and> MOVEMENT_THRESHOLD_WALKING t < m"
  "bracketOf t m = StandingToWalking \<longleftrightarrow>
     \<not> MOVEMENT_THRESHOLD_RUNNING t < m \<and> \<not> MOVEMENT_THRESHOLD_WALKING t < m \<and>
     MOVEMENT_THRESHOLD_STANDING t < m"
  "bracketOf t m = IdleToStanding \<longleftrightarrow>
     \<not> MOVEMENT_THRESHOLD_RUNNING t < m \<and> \<not> MOVEMENT_THRESHOLD_WALKING t < m \<and>
     \<not> MOVEMENT_THRESHOLD_STANDING t < m \<and> MOVEMENT_THRESHOLD_IDLE t < m"
  "bracketOf t m = UpToIdle \<longleftrightarrow>
     \<not> MOVEMENT_THRESHOLD_RUNNING t < m \<and> \<not> MOVEMENT_THRESHOLD_WALKING t < m \<and>
     \<not> MOVEMENT_THRESHOLD_STANDING t < m \<and> \<not> MOVEMENT_THRESHOLD_IDLE t < m"
  by (simp_all add: bracketOf_def)

lemma classify_running:
  assumes "bracketOf t m = AboveRunning"
  shows "snd (classify t m) =
     min 0.95 (0.75 + (if MOVEMENT_THRESHOLD_RUNNING t = 0 then 0
                       else (m - MOVEMENT_THRESHOLD_RUNNING t) / MOVEMENT_THRESHOLD_RUNNING t) * 0.2)"
  using assms unfolding bracketOf_iff by (simp add: classify_def Let_def)

lemma classify_walking:
  assumes "bracketOf t m = WalkingToRunning"
  shows "snd (classify t m) =
     min 0.92 (0.65 + (if MOVEMENT_THRESHOLD_RUNNING t - MOVEMENT_THRESHOLD_WALKING t > 0
                       then (m - MOVEMENT_THRESHOLD_WALKING t) /
                            (MOVEMENT_THRESHOLD_RUNNING t - MOVEMENT_THRESHOLD_WALKING t)
                       else 0) * 0.27)"
  using assms unfolding bracketOf_iff by (simp add: classify_def Let_def)

lemma classify_standing:
  assumes "bracketOf t m = StandingToWalking"
  shows "snd (classify t m) =
     min 0.88 (0.55 + (if MOVEMENT_THRESHOLD_WALKING t - MOVEMENT_THRESHOLD_STANDING t > 0
                       then (m - MOVEMENT_THRESHOLD_STANDING t) /
                            (MOVEMENT_THRESHOLD_WALKING t - MOVEMENT_THRESHOLD_STANDING t)
                       else 0) * 0.33)"
  using assms unfolding bracketOf_iff by (simp add: classify_def Let_def)

lemma classify_light:
  assumes "bracketOf t m = IdleToStanding"
  shows "snd (classify t m) =
     min 0.82 (0.45 + (if MOVEMENT_THRESHOLD_STANDING t - MOVEMENT_THRESHOLD_IDLE t > 0
                       then (m - MOVEMENT_THRESHOLD_IDLE t) /
                            (MOVEMENT_THRESHOLD_STANDING t - MOVEMENT_THRESHOLD_IDLE t)
                       else 0) * 0.37)"
  using assms unfolding bracketOf_iff by (simp add: classify_def Let_def)

lemma classify_idle:
  assumes "bracketOf t m = UpToIdle"
  shows "snd (classify t m) =
     max 0.7 (0.95 - (if MOVEMENT_THRESHOLD_IDLE t > 0
                       then min 1 (m / MOVEMENT_THRESHOLD_IDLE t) else 0) * 0.25)"
  using assms unfolding bracketOf_iff by (simp add: classify_def Let_def)

lemma running_progress_mono:
  fixes a b r :: real
  assumes "a \<le> b" "0 \<le> r"
  shows "(if r = 0 then 0 else (a - r) / r) \<le> (if r = 0 then 0 else (b - r) / r)"
  using assms by (simp add: divide_right_mono)

lemma idle_ratio_mono:
  fixes a b i :: real
  assumes "a \<le> b"
  shows "(if i > 0 then min 1 (a / i) else 0) \<le> (if i > 0 then min 1 (b / i) else 0)"
  using assms by (simp add: divide_right_mono min_le_iff_disj)

lemma floored_antimono:
  fixes p q w c k :: real
  assumes "p \<le> q" "0 \<le> w"
  shows "max c (k - q * w) \<le> max c (k - p * w)"
proof -
  have "k - q * w \<le> k - p * w" using assms by (simp add: mult_right_mono)
  then show ?thesis by (auto simp: max_def)
qed

text \<open>
  C5, as the code has it. For a sensitivity in [0, 1] and two scores \<open>a < b\<close> in the
  same branch of the cascade, the confidence does not decrease from \<open>a\<close> to \<open>b\<close>
  in the four branches above the idle threshold, and does not increase in the idle
  branch.
\<close>

theorem confidence_monotone_within_bracket:
  assumes "0 \<le> s" "s \<le> 1" "a < b"
    and same: "bracketOf (adjustedThresholds s) a = bracketOf (adjustedThresholds s) b"
  shows "(bracketOf (adjustedThresholds s) a \<noteq> UpToIdle \<longrightarrow>
            snd (classify (adjustedThresholds s) a) \<le> snd (classify (adjustedThresholds s) b)) \<and>
         (bracketOf (adjustedThresholds s) a = UpToIdle \<longrightarrow>
            snd (classify (adjustedThresholds s) b) \<le> snd (classify (adjustedThresholds s) a))"
proof (cases "bracketOf (adjustedThresholds s) a")
  case AboveRunning
  have "0 \<le> MOVEMENT_THRESHOLD_RUNNING (adjustedThresholds s)"
    using adjusted_running_pos [OF assms(2)] by simp
  then have "snd (classify (adjustedThresholds s) a) \<le> snd (classify (adjustedThresholds s) b)"
    unfolding classify_running [OF AboveRunning] classify_running [OF AboveRunning [unfolded same]]
    using assms(3) by (intro capped_mono running_progress_mono) simp_all
  with AboveRunning show ?thesis by simp
next
  case WalkingToRunning
  have "snd (classify (adjustedThresholds s) a) \<le> snd (classify (adjustedThresholds s) b)"
    unfolding classify_walking [OF WalkingToRunning] classify_walking [OF WalkingToRunning [unfolded same]]
    using assms(3) by (intro capped_mono progress_mono) simp_all
  with WalkingToRunning show ?thesis by simp
next
  case StandingToWalking
  have "snd (classify (adjustedThresholds s) a) \<le> snd (classify (adjustedThresholds s) b)"
    unfolding classify_standing [OF StandingToWalking] classify_standing [OF StandingToWalking [unfolded same]]
    using assms(3) by (intro capped_mono progress_mono) simp_all
  with StandingToWalking show ?thesis by simp
next
  case IdleToStanding
  have "snd (classify (adjustedThresholds s) a) \<le> snd (classify (adjustedThresholds s) b)"
    unfolding classify_light [OF IdleToStanding] classify_light [OF IdleToStanding [unfolded same]]
    using assms(3) by (intro capped_mono progress_mono) simp_all
  with IdleToStanding show ?thesis by simp
next
  case UpToIdle
  have "snd (classify (adjustedThresholds s) b) \<le> snd (classify (adjustedThresholds s) a)"
    unfolding classify_idle [OF UpToIdle] classify_idle [OF UpToIdle [unfolded same]]
    using assms(3) by (intro floored_antimono idle_ratio_mono) simp_all
  with UpToIdle show ?thesis by simp
qed

theorem confidence_monotone_within_bracket_witness:
  "(0::real) \<le> 1 \<and> (9::real) < 10 \<and>
   bracketOf (adjustedThresholds 1) 9 = bracketOf (adjustedThresholds 1) 10 \<and>
   bracketOf (adjustedThresholds 1) 9 \<noteq> UpToIdle \<and>
   snd (classify (adjustedThresholds 1) 9) \<le> snd (classify (adjustedThresholds 1) 10) \<and>
   bracketOf (adjustedThresholds 1) 0 = bracketOf (adjustedThresholds 1) (1 / 4) \<and>
   bracketOf (adjustedThresholds 1) 0 = UpToIdle \<and>
   snd (classify (adjustedThresholds 1) (1 / 4)) \<le> snd (classify (adjustedThresholds 1) 0)"
  using confidence_monotone_within_bracket [of 1 9 10]
        confidence_monotone_within_bracket [of 1 0 "1 / 4"]
  by (simp add: bracketOf_def adjustedThresholds_sel)

text \<open>
  The claim as stated fails twice at sensitivity 1. The scores 0 and 0.25 are both
  IDLE, with confidence 0.95 and 0.825; the scores 2 and 3 are both STANDING (the
  label of two branches), with confidence 0.82 and 0.605.
\<close>

theorem confidence_monotone_counterexample:
  "fst (classify (adjustedThresholds 1) 0) = fst (classify (adjustedThresholds 1) (1 / 4)) \<and>
   \<not> snd (classify (adjustedThresholds 1) 0) \<le> snd (classify (adjustedThresholds 1) (1 / 4)) \<and>
   fst (classify (adjustedThresholds 1) 2) = fst (classify (adjustedThresholds 1) 3) \<and>
   \<not> snd (classify (adjustedThresholds 1) 2) \<le> snd (classify (adjustedThresholds 1) 3)"
  by (simp add: classify_def adjustedThresholds_sel Let_def)


subsection \<open>Validation of the sample\<close>

lemma missingOrNonFinite_iff: "missingOrNonFinite v \<longleftrightarrow> \<not> typeofNumber v \<or> \<not> isFinite v"
  by (cases v) (simp_all add: missingOrNonFinite_def)

lemma validation_iff:
  "list_ex (\<lambda>field. \<not> typeofNumber (field d) \<or> \<not> isFinite (field d)) requiredFields
     \<longleftrightarrow> \<not> acceptedSample d"
  by (auto simp add: requiredFields_def acceptedSample_def missingOrNonFinite_iff)

lemma predictActivity_rejects:
  "\<not> acceptedSample d \<Longrightarrow> predictActivity (Some d) now now' w = (w, Inr (latestActivityState w))"
  unfolding predictActivity_def validation_iff by simp

lemma predictActivity_calibrating:
  assumes "acceptedSample d" "isMonitoring (service w)" "settings (service w) = Some s"
    and "length (sensorDataBuffer (service w)) + 1 < SENSOR_DATA_BUFFER_SIZE"
  shows "predictActivity (Some d) now now' w =
     (if name (latestActivityState w) \<noteq> CALIBRATING
      then notifyAndReturn
             (w\<lparr>service := (service w)\<lparr>sensorDataBuffer := sensorDataBuffer (service w) @ [d]\<rparr>,
                latestActivityState := (latestActivityState w)\<lparr>name := CALIBRATING, confidence := 0.5\<rparr>\<rparr>)
      else (w\<lparr>service := (service w)\<lparr>sensorDataBuffer := sensorDataBuffer (service w) @ [d]\<rparr>\<rparr>,
            Inr (latestActivityState w)))"
  using assms unfolding predictActivity_def validation_iff by (simp add: pushSample_def Let_def)

lemma predictActivity_classifies:
  assumes "classificationTick d w" "settings (service w) = Some s"
  shows "predictActivity (Some d) now now' w =
     notifyAndReturn
       (classifyWindow s now now'
          (w\<lparr>service := (service w)\<lparr>sensorDataBuffer := pushSample d (sensorDataBuffer (service w))\<rparr>\<rparr>))"
proof -
  have "\<not> length (pushSample d (sensorDataBuffer (service w))) < SENSOR_DATA_BUFFER_SIZE"
    using assms(1) by (simp add: classificationTick_def pushSample_def)
  then show ?thesis
    using assms unfolding predictActivity_def validation_iff
    by (simp add: classificationTick_def Let_def)
qed

text \<open>
  C3. A sample with a missing or non-finite field leaves the whole world as it is (no
  buffer, counter or published state changes and the trace of listener calls does not
  grow), and the call returns the published state, without an exception.
\<close>

theorem invalid_sample_is_noop:
  assumes "missingOrNonFinite (ax d) \<or> missingOrNonFinite (ay d) \<or> missingOrNonFinite (az d) \<or>
           missingOrNonFinite (gx d) \<or> missingOrNonFinite (gy d) \<or> missingOrNonFinite (gz d)"
  shows "predictActivity (Some d) now now' w = (w, Inr (latestActivityState w))"
  using assms by (intro predictActivity_rejects) (auto simp add: acceptedSample_def)

theorem invalid_sample_is_noop_witness:
  "missingOrNonFinite (gy brokenSample) \<and>
   predictActivity (Some brokenSample) 1000 1000 (fst (start subscribedWorld)) =
     (fst (start subscribedWorld), Inr (latestActivityState (fst (start subscribedWorld))))"
  using invalid_sample_is_noop [of brokenSample 1000 1000 "fst (start subscribedWorld)"]
  by (simp add: brokenSample_def missingOrNonFinite_def)

subsection \<open>Broadcast\<close>

lemma notifyListeners_keeps:
  "listeners (fst (notifyListeners w)) = listeners w"
  "latestActivityState (fst (notifyListeners w)) = latestActivityState w"
  "service (fst (notifyListeners w)) = service w"
  by (simp_all add: notifyListeners_def split: prod.splits)

lemma fst_notifyAndReturn: "fst (notifyAndReturn w) = fst (notifyListeners w)"
  by (simp add: notifyAndReturn_def split: prod.splits sum.splits)

lemma notifyAndReturn_keeps:
  "listeners (fst (notifyAndReturn w)) = listeners w"
  "latestActivityState (fst (notifyAndReturn w)) = latestActivityState w"
  "service (fst (notifyAndReturn w)) = service w"
  by (simp_all add: fst_notifyAndReturn notifyListeners_keeps)

lemma notifyAndReturn_result:
  "snd (notifyAndReturn w) = Inr st \<Longrightarrow> st = latestActivityState w"
  using notifyListeners_keeps(2) [of w]
  by (cases "notifyListeners w"; cases "snd (notifyListeners w)") (auto simp add: notifyAndReturn_def)

lemma callListeners_throwing:
  assumes "\<forall>k\<in>set before. \<not> lthrows k st" "lthrows l st"
  shows "callListeners (before @ l # after) st =
           (map (\<lambda>k. (lid k, st)) (before @ [l]), Inl (ListenerError (lid l)))"
  using assms by (induction before) simp_all

lemma callListeners_quiet:
  assumes "\<forall>k\<in>set ls. \<not> lthrows k st"
  shows "callListeners ls st = (map (\<lambda>k. (lid k, st)) ls, Inr ())"
  using assms by (induction ls) simp_all

lemma subscribedWorld_eq:
  "subscribedWorld =
     loadedWorld\<lparr>listeners := [quietListener, faultyListener, lateListener],
                 delivered := [(1, initialActivityState), (0, initialActivityState),
                               (2, initialActivityState)]\<rparr>"
  by (simp add: subscribedWorld_def subscribeToActivity_def loadedWorld_def refreshSettings_def
      initialWorld_def quietListener_def faultyListener_def lateListener_def Let_def)

text \<open>
  C8, as the code has it. A callback that throws is not caught: the broadcast calls the
  listeners before it and the throwing one, calls none of the listeners after it, and
  ends with the exception; the listener list, the published state and the service are
  as they were before the broadcast.
\<close>

theorem listener_exception_propagates:
  assumes "listeners w = before @ l # after"
    and "\<forall>k\<in>set before. \<not> lthrows k (latestActivityState w)"
    and "lthrows l (latestActivityState w)"
  shows "notifyListeners w =
           (w\<lparr>delivered := delivered w @ map (\<lambda>k. (lid k, latestActivityState w)) (before @ [l])\<rparr>,
            Inl (ListenerError (lid l)))"
  using callListeners_throwing [OF assms(2,3), of after] assms(1)
  by (simp add: notifyListeners_def)

theorem listener_exception_propagates_witness:
  "listeners subscribedWorld = [quietListener] @ faultyListener # [lateListener] \<and>
   \<not> lthrows quietListener (latestActivityState subscribedWorld) \<and>
   lthrows faultyListener (latestActivityState subscribedWorld) \<and>
   snd (notifyListeners subscribedWorld) = Inl (ListenerError 0) \<and>
   delivered (fst (notifyListeners subscribedWorld)) =
     delivered subscribedWorld @ [(1, initialActivityState), (0, initialActivityState)]"
  using listener_exception_propagates
          [of subscribedWorld "[quietListener]" faultyListener "[lateListener]"]
  by (simp add: subscribedWorld_eq loadedWorld_def refreshSettings_def initialWorld_def
      quietListener_def faultyListener_def)

text \<open>
  The claim as stated fails: with the three subscribers above, \<open>start\<close> ends with the
  exception of the second subscriber, and the third one is never called with the state
  that \<open>start\<close> published.
\<close>

theorem listener_exception_counterexample:
  "snd (start subscribedWorld) = Inl (ListenerError 0) \<and>
   isProtectionActive (latestActivityState (fst (start subscribedWorld))) \<and>
   (2, latestActivityState (fst (start subscribedWorld)))
      \<notin> set (delivered (fst (start subscribedWorld)))"
  by (simp add: start_def notifyListeners_def subscribedWorld_eq loadedWorld_def
      refreshSettings_def initialWorld_def initialActivityState_def
      quietListener_def faultyListener_def lateListener_def)

subsection \<open>The movement score\<close>

lemma foldl_add_sum: "foldl (\<lambda>a b. a + f b) a xs = a + (\<Sum>x\<leftarrow>xs. f x)" for a :: real
  by (induction xs arbitrary: a) simp_all

lemma foldl_plus_sum: "foldl (+) a xs = a + sum_list xs" for a :: real
  using foldl_add_sum [of "\<lambda>b. b" a xs] by simp

lemma calculateVariance_eq:
  "calculateVariance xs = (if length xs < 2 then 0 else populationVariance xs)"
  by (simp add: calculateVariance_def populationVariance_def mean_def foldl_add_sum foldl_plus_sum Let_def)

lemma calculateMagnitude_eq:
  "calculateMagnitude x y z = signalVectorMagnitude (numberOf x) (numberOf y) (numberOf z)"
  by (cases x; cases y; cases z) (simp_all add: calculateMagnitude_def signalVectorMagnitude_def power2_eq_square)

lemma totalMovement_eq:
  assumes "2 \<le> length buf"
  shows "totalMovement buf =
           populationVariance (gravityCorrected (accelMagnitudesOf buf)) * 15 +
           populationVariance (gyroMagnitudesOf buf) * 85"
  using assms
  by (simp add: totalMovement_def calculateVariance_eq calculateMagnitude_eq accelMagnitudesOf_def
      gyroMagnitudesOf_def gravityCorrected_def mean_def foldl_plus_sum Let_def)

lemma smoothActivity_keeps:
  "movementHistory (snd (snd (smoothActivity a c h))) = movementHistory h"
  "highMovementDuration (snd (snd (smoothActivity a c h))) = highMovementDuration h"
  "consecutiveStillReadings (snd (snd (smoothActivity a c h))) = consecutiveStillReadings h"
  "walkingSessionActive (snd (snd (smoothActivity a c h))) = walkingSessionActive h"
  "lastSuddenStopTime (snd (snd (smoothActivity a c h))) = lastSuddenStopTime h"
  "isMonitoring (snd (snd (smoothActivity a c h))) = isMonitoring h"
  "settings (snd (snd (smoothActivity a c h))) = settings h"
  "sensorDataBuffer (snd (snd (smoothActivity a c h))) = sensorDataBuffer h"
  by (simp_all add: smoothActivity_def Let_def)

lemma pushMovement_keeps:
  "highMovementDuration (pushMovement m h) = highMovementDuration h"
  "consecutiveStillReadings (pushMovement m h) = consecutiveStillReadings h"
  "walkingSessionActive (pushMovement m h) = walkingSessionActive h"
  "lastSuddenStopTime (pushMovement m h) = lastSuddenStopTime h"
  "isMonitoring (pushMovement m h) = isMonitoring h"
  "settings (pushMovement m h) = settings h"
  "sensorDataBuffer (pushMovement m h) = sensorDataBuffer h"
  "lastActivity (pushMovement m h) = lastActivity h"
  "activityChangeCount (pushMovement m h) = activityChangeCount h"
  by (simp_all add: pushMovement_def Let_def)

lemma pushMovement_history:
  "movementHistory (pushMovement m h) =
     (if length (movementHistory h) \<ge> 100 then tl (movementHistory h @ [m])
      else movementHistory h @ [m])"
  by (simp add: pushMovement_def Let_def)

lemma last_pushMovement: "last (movementHistory (pushMovement m h)) = m"
  by (cases "movementHistory h") (simp_all add: pushMovement_history)

lemma trackSession_keeps:
  "movementHistory (trackSession a h) = movementHistory h"
  "lastSuddenStopTime (trackSession a h) = lastSuddenStopTime h"
  "isMonitoring (trackSession a h) = isMonitoring h"
  "settings (trackSession a h) = settings h"
  "sensorDataBuffer (trackSession a h) = sensorDataBuffer h"
  "lastActivity (trackSession a h) = lastActivity h"
  "activityChangeCount (trackSession a h) = activityChangeCount h"
  by (simp_all add: trackSession_def Let_def)

lemma detectSuddenStop_keeps:
  "movementHistory (snd (detectSuddenStop t n n' h)) = movementHistory h"
  "consecutiveStillReadings (snd (detectSuddenStop t n n' h)) = consecutiveStillReadings h"
  "isMonitoring (snd (detectSuddenStop t n n' h)) = isMonitoring h"
  "settings (snd (detectSuddenStop t n n' h)) = settings h"
  "sensorDataBuffer (snd (detectSuddenStop t n n' h)) = sensorDataBuffer h"
  "lastActivity (snd (detectSuddenStop t n n' h)) = lastActivity h"
  "activityChangeCount (snd (detectSuddenStop t n n' h)) = activityChangeCount h"
  by (simp_all add: detectSuddenStop_def Let_def)

lemma beforeDetection_history:
  "last (movementHistory (snd (snd (beforeDetection s w)))) =
     totalMovement (sensorDataBuffer (service w))"
  by (simp add: beforeDetection_def Let_def split_beta trackSession_keeps last_pushMovement)

lemma classifyWindow_parts:
  "service (classifyWindow s n n' w) =
     snd (detectSuddenStop (adjustedThresholds (detectionSensitivity s)) n n'
            (snd (snd (beforeDetection s w))))"
  "name (latestActivityState (classifyWindow s n n' w)) = fst (beforeDetection s w)"
  "confidence (latestActivityState (classifyWindow s n n' w)) =
     toFixed2 (fst (snd (beforeDetection s w)))"
  "anomaly (latestActivityState (classifyWindow s n n' w)) =
     fst (detectSuddenStop (adjustedThresholds (detectionSensitivity s)) n n'
            (snd (snd (beforeDetection s w))))"
  "listeners (classifyWindow s n n' w) = listeners w"
  "delivered (classifyWindow s n n' w) = delivered w"
  by (simp_all add: classifyWindow_def Let_def split_beta)

lemma classifyWindow_history:
  "last (movementHistory (service (classifyWindow s n n' w))) =
     totalMovement (sensorDataBuffer (service w))"
  by (simp add: classifyWindow_parts detectSuddenStop_keeps beforeDetection_history)

lemma length_pushSample:
  "SENSOR_DATA_BUFFER_SIZE \<le> length buf + 1 \<Longrightarrow> 2 \<le> length (pushSample d buf)"
  by (simp add: pushSample_def SENSOR_DATA_BUFFER_SIZE_def)


subsection \<open>Runs of samples and the concrete session\<close>


lemma samplesAt_simps:
  "samplesAt t [] = []" "samplesAt t (d # ds) = Sample (Some d) t t # samplesAt t ds"
  "samplesAt t (xs @ ys) = samplesAt t xs @ samplesAt t ys"
  by (simp_all add: samplesAt_def)

lemma notifyAndReturn_no_listeners:
  "listeners w = [] \<Longrightarrow> notifyAndReturn w = (w, Inr (latestActivityState w))"
  by (simp add: notifyAndReturn_def notifyListeners_def)

lemma run_calibrating:
  assumes "listeners w = []" "isMonitoring (service w)" "settings (service w) = Some s"
    and "\<forall>d\<in>set ds. acceptedSample d"
    and "length (sensorDataBuffer (service w)) + length ds < SENSOR_DATA_BUFFER_SIZE"
  shows "run (samplesAt t ds) w =
           w\<lparr>service := (service w)\<lparr>sensorDataBuffer := sensorDataBuffer (service w) @ ds\<rparr>,
             latestActivityState :=
               (if ds = [] \<or> name (latestActivityState w) = CALIBRATING then latestActivityState w
                else (latestActivityState w)\<lparr>name := CALIBRATING, confidence := 0.5\<rparr>)\<rparr>"
  using assms
proof (induction ds arbitrary: w)
  case Nil
  then show ?case by (simp add: samplesAt_simps)
next
  case (Cons d ds)
  let ?w1 = "fst (predictActivity (Some d) t t w)"
  have step: "?w1 =
      w\<lparr>service := (service w)\<lparr>sensorDataBuffer := sensorDataBuffer (service w) @ [d]\<rparr>,
        latestActivityState :=
          (if name (latestActivityState w) = CALIBRATING then latestActivityState w
           else (latestActivityState w)\<lparr>name := CALIBRATING, confidence := 0.5\<rparr>)\<rparr>"
    using Cons.prems
    by (simp add: predictActivity_calibrating [where s = s] notifyAndReturn_no_listeners)
  have "run (samplesAt t ds) ?w1 =
      ?w1\<lparr>service := (service ?w1)\<lparr>sensorDataBuffer := sensorDataBuffer (service ?w1) @ ds\<rparr>,
        latestActivityState :=
          (if ds = [] \<or> name (latestActivityState ?w1) = CALIBRATING then latestActivityState ?w1
           else (latestActivityState ?w1)\<lparr>name := CALIBRATING, confidence := 0.5\<rparr>)\<rparr>"
    using Cons.prems by (intro Cons.IH) (simp_all add: step)
  then show ?case by (simp add: samplesAt_simps step)
qed

lemma startedWorld_eq:
  "startedWorld =
     \<lparr>listeners = [],
      latestActivityState = \<lparr>name = IDLE, confidence = 1, isProtectionActive = True, anomaly = None\<rparr>,
      service = newService\<lparr>settings := Some highSensitivity, isMonitoring := True\<rparr>,
      delivered = []\<rparr>"
  by (simp add: startedWorld_def start_def notifyListeners_def loadedWorld_def refreshSettings_def
      initialWorld_def initialActivityState_def)

lemma accepted_concrete: "acceptedSample zeroSample" "acceptedSample spinSample"
  by (simp_all add: acceptedSample_def missingOrNonFinite_def zeroSample_def spinSample_def)

lemma magnitudes_concrete:
  "accelMagnitudesOf (xs @ ys) = accelMagnitudesOf xs @ accelMagnitudesOf ys"
  "gyroMagnitudesOf (xs @ ys) = gyroMagnitudesOf xs @ gyroMagnitudesOf ys"
  "accelMagnitudesOf (replicate n zeroSample) = replicate n 0"
  "accelMagnitudesOf (replicate n spinSample) = replicate n 0"
  "accelMagnitudesOf [spinSample] = [0]"
  "gyroMagnitudesOf (replicate n zeroSample) = replicate n 0"
  "gyroMagnitudesOf (replicate n spinSample) = replicate n 1"
  "gyroMagnitudesOf [spinSample] = [1]"
  by (simp_all add: accelMagnitudesOf_def gyroMagnitudesOf_def signalVectorMagnitude_def
      zeroSample_def spinSample_def)

lemma variance_concrete:
  "populationVariance (gravityCorrected (replicate 20 0 @ replicate 4 0 @ [0])) = 0"
  "populationVariance (gravityCorrected (replicate 24 0 @ [0])) = 0"
  "populationVariance (replicate 20 0 @ replicate 4 1 @ [1]) = 4 / 25"
  "populationVariance (replicate 24 0 @ [1]) = 24 / 625"
  by (simp_all add: populationVariance_def gravityCorrected_def mean_def sum_list_replicate
      power2_eq_square)

lemma totalMovement_concrete:
  "totalMovement (replicate 20 zeroSample @ replicate 4 spinSample @ [spinSample]) = 68 / 5"
  "totalMovement (replicate 24 zeroSample @ [spinSample]) = 408 / 125"
  by (simp_all add: totalMovement_eq magnitudes_concrete variance_concrete)

lemma classify_concrete:
  "classify (adjustedThresholds 1) (68 / 5) = (WALKING, 97 / 125)"
  "classify (adjustedThresholds 1) (408 / 125) = (STANDING, 0.61952)"
  by (simp_all add: classify_def adjustedThresholds_sel Let_def)

lemma toFixed2_concrete: "toFixed2 (97 / 125) = 78 / 100" "toFixed2 (0.31952) = 32 / 100"
  by (simp_all add: toFixed2_def)

lemma calibratedWorld_eq:
  "calibratedWorld =
     \<lparr>listeners = [],
      latestActivityState =
        \<lparr>name = CALIBRATING, confidence = 1 / 2, isProtectionActive = True, anomaly = None\<rparr>,
      service = newService
        \<lparr>sensorDataBuffer := replicate 20 zeroSample @ replicate 4 spinSample,
         settings := Some highSensitivity, isMonitoring := True\<rparr>,
      delivered = []\<rparr>"
  unfolding calibratedWorld_def
  by (subst run_calibrating [where s = highSensitivity])
     (auto simp add: startedWorld_eq newService_def accepted_concrete SENSOR_DATA_BUFFER_SIZE_def)

lemma calibratedWorld_tick: "classificationTick spinSample calibratedWorld"
  by (simp add: calibratedWorld_eq newService_def classificationTick_def accepted_concrete
      SENSOR_DATA_BUFFER_SIZE_def)

lemma calibratedWorld_push:
  "pushSample spinSample (sensorDataBuffer (service calibratedWorld)) =
     replicate 20 zeroSample @ replicate 4 spinSample @ [spinSample]"
  by (simp add: calibratedWorld_eq newService_def pushSample_def SENSOR_DATA_BUFFER_SIZE_def)

lemma walkedWorld_eq:
  "walkedWorld =
     \<lparr>listeners = [],
      latestActivityState =
        \<lparr>name = WALKING, confidence = 78 / 100, isProtectionActive = True, anomaly = None\<rparr>,
      service = newService
        \<lparr>sensorDataBuffer := replicate 20 zeroSample @ replicate 4 spinSample @ [spinSample],
         settings := Some highSensitivity, isMonitoring := True, lastActivity := WALKING,
         movementHistory := [68 / 5], highMovementDuration := 1\<rparr>,
      delivered = []\<rparr>"
proof -
  have set: "settings (service calibratedWorld) = Some highSensitivity"
    by (simp add: calibratedWorld_eq newService_def)
  have "walkedWorld = classifyWindow highSensitivity 1000 1000
      (calibratedWorld\<lparr>service := (service calibratedWorld)\<lparr>sensorDataBuffer :=
             replicate 20 zeroSample @ replicate 4 spinSample @ [spinSample]\<rparr>\<rparr>)"
    unfolding walkedWorld_def predictActivity_classifies [OF calibratedWorld_tick set]
      calibratedWorld_push
    by (simp add: fst_notifyAndReturn notifyListeners_def classifyWindow_parts calibratedWorld_eq)
  also have "\<dots> = \<lparr>listeners = [],
      latestActivityState =
        \<lparr>name = WALKING, confidence = 78 / 100, isProtectionActive = True, anomaly = None\<rparr>,
      service = newService
        \<lparr>sensorDataBuffer := replicate 20 zeroSample @ replicate 4 spinSample @ [spinSample],
         settings := Some highSensitivity, isMonitoring := True, lastActivity := WALKING,
         movementHistory := [68 / 5], highMovementDuration := 1\<rparr>,
      delivered = []\<rparr>"
    by (simp add: calibratedWorld_eq classifyWindow_def beforeDetection_def
        totalMovement_concrete classify_concrete toFixed2_concrete highSensitivity_def
        smoothActivity_def pushMovement_def trackSession_def detectSuddenStop_def newService_def Let_def)
  finally show ?thesis .
qed

subsection \<open>The weights of the movement score\<close>

text \<open>
  C1, as the code has it. On a completed classification tick the score that is appended
  to the movement history and that the cascade classifies is the variance of the
  gravity-corrected accelerometer magnitudes of the window times 15 plus the variance of
  its gyroscope magnitudes times 85.
\<close>

theorem movement_score_weights:
  assumes "classificationTick d w"
  shows "last (movementHistory (service (fst (predictActivity (Some d) now now' w)))) =
           populationVariance
             (gravityCorrected (accelMagnitudesOf (pushSample d (sensorDataBuffer (service w))))) * 15 +
           populationVariance
             (gyroMagnitudesOf (pushSample d (sensorDataBuffer (service w)))) * 85 \<and>
         rawClassification s d w =
           classify (adjustedThresholds (detectionSensitivity s))
             (populationVariance
                (gravityCorrected (accelMagnitudesOf (pushSample d (sensorDataBuffer (service w))))) * 15 +
              populationVariance
                (gyroMagnitudesOf (pushSample d (sensorDataBuffer (service w)))) * 85)"
proof -
  obtain s' where s': "settings (service w) = Some s'"
    using assms by (auto simp add: classificationTick_def)
  have "2 \<le> length (pushSample d (sensorDataBuffer (service w)))"
    using assms by (intro length_pushSample) (simp add: classificationTick_def)
  then show ?thesis
    by (simp add: predictActivity_classifies [OF assms s'] notifyAndReturn_keeps
        classifyWindow_history totalMovement_eq rawClassification_def)
qed

theorem movement_score_weights_witness:
  "classificationTick spinSample calibratedWorld \<and>
   last (movementHistory (service (fst (predictActivity (Some spinSample) 1000 1000 calibratedWorld))))
     = 68 / 5 \<and>
   rawClassification highSensitivity spinSample calibratedWorld = (WALKING, 97 / 125)"
  using movement_score_weights [of spinSample calibratedWorld 1000 1000 highSensitivity]
    calibratedWorld_tick
  by (simp add: calibratedWorld_push magnitudes_concrete variance_concrete classify_concrete
      highSensitivity_def)

text \<open>
  The claim as stated fails on the window of the concrete session: the score of the tick
  is 13.6 and the tick publishes WALKING, where the weights 0.15 and 0.85 give 0.136,
  a score that the cascade classifies as IDLE.
\<close>

theorem movement_score_weights_counterexample:
  "last (movementHistory (service walkedWorld)) = 68 / 5 \<and>
   name (latestActivityState walkedWorld) = WALKING \<and>
   populationVariance (gravityCorrected (accelMagnitudesOf (sensorDataBuffer (service walkedWorld))))
       * 0.15 +
     populationVariance (gyroMagnitudesOf (sensorDataBuffer (service walkedWorld))) * 0.85
     = 17 / 125 \<and>
   fst (classify (adjustedThresholds 1) (17 / 125)) = IDLE"
  by (simp add: walkedWorld_eq newService_def magnitudes_concrete variance_concrete
      classify_def adjustedThresholds_sel Let_def)

subsection \<open>Stopping the service\<close>



subsection \<open>Calibration\<close>

lemma predictActivity_None: "predictActivity None now now' w = (w, Inr (latestActivityState w))"
  by (simp add: predictActivity_def)


















subsection \<open>The sudden-stop test\<close>

lemma slice_windows:
  assumes "50 \<le> length hist"
  shows "slice hist (- 3) None = recentWindow hist"
    and "slice hist (- 20) (Some (- 10)) = priorWindow hist"
    and "slice hist (- 50) (Some (- 20)) = longTermWindow hist"
  using assms
  by (simp_all add: slice_def recentWindow_def priorWindow_def longTermWindow_def Let_def
      nat_diff_distrib' nat_add_distrib)

lemma foldl_mean: "foldl (+) 0 xs / real (length xs) = mean xs"
  by (simp add: mean_def foldl_plus_sum)



lemma detectSuddenStop_fired:
  assumes "fst (detectSuddenStop t now now' h) \<noteq> None"
  shows "highMovementDuration (snd (detectSuddenStop t now now' h)) = 0"
    and "\<not> walkingSessionActive (snd (detectSuddenStop t now now' h))"
    and "lastSuddenStopTime (snd (detectSuddenStop t now now' h)) = now'"
  using assms by (simp_all add: detectSuddenStop_def Let_def split: if_splits)

lemma detectSuddenStop_short:
  "highMovementDuration h < 50 \<Longrightarrow> fst (detectSuddenStop t now now' h) = None"
  by (simp add: detectSuddenStop_def Let_def)

lemma trackSession_duration:
  "highMovementDuration (trackSession a h) \<le> highMovementDuration h + 1"
  by (simp add: trackSession_def Let_def)

lemma beforeDetection_duration:
  "highMovementDuration (snd (snd (beforeDetection s w))) \<le> highMovementDuration (service w) + 1"
  using trackSession_duration
    [of "fst (smoothActivity
               (fst (classify (adjustedThresholds (detectionSensitivity s))
                       (totalMovement (sensorDataBuffer (service w)))))
               (snd (classify (adjustedThresholds (detectionSensitivity s))
                       (totalMovement (sensorDataBuffer (service w)))))
               (service w))"
        "pushMovement (totalMovement (sensorDataBuffer (service w)))
           (snd (snd (smoothActivity
               (fst (classify (adjustedThresholds (detectionSensitivity s))
                       (totalMovement (sensorDataBuffer (service w)))))
               (snd (classify (adjustedThresholds (detectionSensitivity s))
                       (totalMovement (sensorDataBuffer (service w)))))
               (service w))))"]
  by (simp add: beforeDetection_def Let_def split_beta pushMovement_keeps smoothActivity_keeps)

lemma tick_anomaly:
  assumes "classificationTick d w" "settings (service w) = Some s"
  shows "anomaly (latestActivityState (fst (predictActivity (Some d) now now' w))) =
           fst (detectSuddenStop (adjustedThresholds (detectionSensitivity s)) now now'
             (snd (snd (beforeDetection s
                (w\<lparr>service := (service w)
                     \<lparr>sensorDataBuffer := pushSample d (sensorDataBuffer (service w))\<rparr>\<rparr>)))))"
  by (simp add: predictActivity_classifies [OF assms] notifyAndReturn_keeps classifyWindow_parts)

lemma tick_service:
  assumes "classificationTick d w" "settings (service w) = Some s"
  shows "service (fst (predictActivity (Some d) now now' w)) =
           snd (detectSuddenStop (adjustedThresholds (detectionSensitivity s)) now now'
             (snd (snd (beforeDetection s
                (w\<lparr>service := (service w)
                     \<lparr>sensorDataBuffer := pushSample d (sensorDataBuffer (service w))\<rparr>\<rparr>)))))"
  by (simp add: predictActivity_classifies [OF assms] notifyAndReturn_keeps classifyWindow_parts)

lemma tick_after_short_duration:
  assumes "classificationTick d w" "highMovementDuration (service w) < 49"
  shows "anomaly (latestActivityState (fst (predictActivity (Some d) now now' w))) = None"
proof -
  obtain s where s: "settings (service w) = Some s"
    using assms(1) by (auto simp add: classificationTick_def)
  let ?w1 = "w\<lparr>service := (service w)
                \<lparr>sensorDataBuffer := pushSample d (sensorDataBuffer (service w))\<rparr>\<rparr>"
  have "highMovementDuration (snd (snd (beforeDetection s ?w1))) < 50"
    using beforeDetection_duration [of s ?w1] assms(2) by simp
  then show ?thesis
    by (simp add: tick_anomaly [OF assms(1) s] detectSuddenStop_short)
qed

lemma unclassified_sample_duration:
  assumes "\<not> classificationTick d w"
  shows "highMovementDuration (service (fst (predictActivity (Some d) now now' w))) =
           highMovementDuration (service w)"
proof (cases "acceptedSample d \<and> isMonitoring (service w) \<and> settings (service w) \<noteq> None")
  case True
  then obtain s where s: "settings (service w) = Some s" by auto
  have len: "length (sensorDataBuffer (service w)) + 1 < SENSOR_DATA_BUFFER_SIZE"
    using assms True by (simp add: classificationTick_def)
  show ?thesis
    using True by (simp add: predictActivity_calibrating [OF _ _ s len] notifyAndReturn_keeps)
next
  case False
  show ?thesis
  proof (cases "acceptedSample d")
    case rej: False
    then show ?thesis by (simp add: predictActivity_rejects)
  next
    case acc: True
    then have "settings (service w) = None \<or> \<not> isMonitoring (service w)"
      using False by auto
    then show ?thesis
      using acc unfolding predictActivity_def validation_iff
      by (auto simp add: Let_def notifyAndReturn_keeps split: option.splits)
  qed
qed

lemma step_duration:
  assumes "case e of Sample (Some d) now now' \<Rightarrow> \<not> classificationTick d w | _ \<Rightarrow> True"
  shows "highMovementDuration (service (step e w)) = highMovementDuration (service w)"
proof (cases e)
  case (Sample d now now')
  then show ?thesis
    using assms
    by (cases d) (simp_all add: predictActivity_None unclassified_sample_duration)
qed (simp_all add: start_def stop_def notifyListeners_keeps refreshSettings_def
      subscribeToActivity_def unsubscribeFromActivity_def sensorSubscribed_def Let_def)

lemma noClassification_Cons:
  "noClassification (e # es) w \<longleftrightarrow>
     (case e of Sample (Some d) now now' \<Rightarrow> \<not> classificationTick d w | _ \<Rightarrow> True) \<and>
     noClassification es (step e w)"
proof (cases e)
  case (Sample d now now')
  then show ?thesis by (cases d) simp_all
qed simp_all

lemma noClassification_duration:
  "noClassification es w \<Longrightarrow>
   highMovementDuration (service (run es w)) = highMovementDuration (service w)"
proof (induction es arbitrary: w)
  case Nil
  then show ?case by simp
next
  case (Cons e es)
  from Cons.prems
  have head: "case e of Sample (Some d) now now' \<Rightarrow> \<not> classificationTick d w | _ \<Rightarrow> True"
    and rest: "noClassification es (step e w)"
    unfolding noClassification_Cons by simp_all
  have "highMovementDuration (service (run es (step e w))) =
        highMovementDuration (service (step e w))"
    using rest by (rule Cons.IH)
  also have "\<dots> = highMovementDuration (service w)"
    using head by (rule step_duration)
  finally show ?case by simp
qed

lemma classificationTick_ignores_published:
  "classificationTick d (w\<lparr>latestActivityState := st\<rparr>) = classificationTick d w"
  by (simp add: classificationTick_def)



lemma rest_concrete:
  "accelMagnitudesOf [zeroSample] = [0]" "gyroMagnitudesOf [zeroSample] = [0]"
  "populationVariance (replicate 24 0 @ [0]) = 0"
  by (simp_all add: accelMagnitudesOf_def gyroMagnitudesOf_def signalVectorMagnitude_def
      zeroSample_def populationVariance_def mean_def sum_list_replicate)

lemma totalMovement_rest: "totalMovement (replicate 24 zeroSample @ [zeroSample]) = 0"
  by (simp add: totalMovement_eq magnitudes_concrete variance_concrete rest_concrete)

lemma classify_rest: "classify (adjustedThresholds 1) 0 = (IDLE, 95 / 100)"
  by (simp add: classify_def adjustedThresholds_sel Let_def)

lemma toFixed2_rest: "toFixed2 (19 / 20) = 19 / 20"
  by (simp add: toFixed2_def)

lemma aboutToStop_tick:
  "classificationTick zeroSample aboutToStopWorld"
  "settings (service aboutToStopWorld) = Some highSensitivity"
  "pushSample zeroSample (sensorDataBuffer (service aboutToStopWorld)) =
     replicate 24 zeroSample @ [zeroSample]"
  by (simp_all add: aboutToStopWorld_def newService_def classificationTick_def accepted_concrete
      pushSample_def SENSOR_DATA_BUFFER_SIZE_def)


lemma detectionInput_aboutToStop:
  "detectionInput highSensitivity zeroSample aboutToStopWorld =
     newService
       \<lparr>sensorDataBuffer := replicate 24 zeroSample @ [zeroSample],
        settings := Some highSensitivity, isMonitoring := True,
        movementHistory := replicate 47 20 @ [0, 0, 0], highMovementDuration := 50,
        consecutiveStillReadings := 3, walkingSessionActive := True\<rparr>"
  unfolding detectionInput_def aboutToStop_tick(3)
  by (simp add: aboutToStopWorld_def beforeDetection_def totalMovement_rest classify_rest
      highSensitivity_def smoothActivity_def pushMovement_def trackSession_def newService_def Let_def)


lemma windows_aboutToStop:
  "recentWindow (replicate 47 20 @ [0, 0, 0]) = [0, 0, 0]"
  "priorWindow (replicate 47 20 @ [0, 0, 0]) = replicate 10 20"
  "longTermWindow (replicate 47 20 @ [0, 0, 0]) = replicate 30 20"
  by (simp_all add: recentWindow_def priorWindow_def longTermWindow_def)


lemma means_concrete:
  "mean [0, 0, 0] = 0" "mean (replicate 10 20) = 20" "mean (replicate 30 20) = 20"
  "mean (replicate 30 12) = 12"
  by (simp_all add: mean_def sum_list_replicate)

lemma highSensitivity_sel: "detectionSensitivity highSensitivity = 1"
  by (simp add: highSensitivity_def)


lemma boundary_time: "lastSuddenStopTime (service boundaryWorld) = 0"
  by (simp add: boundaryWorld_def aboutToStopWorld_def newService_def)

lemma firedWorld_eq:
  "firedWorld =
     \<lparr>listeners = [],
      latestActivityState =
        \<lparr>name = IDLE, confidence = 95 / 100, isProtectionActive = True,
         anomaly = Some (Anomaly SUDDEN_STOP HIGH)\<rparr>,
      service = newService
        \<lparr>sensorDataBuffer := replicate 24 zeroSample @ [zeroSample],
         settings := Some highSensitivity, isMonitoring := True,
         movementHistory := replicate 47 20 @ [0, 0, 0], highMovementDuration := 0,
         consecutiveStillReadings := 3, lastSuddenStopTime := 100005,
         walkingSessionActive := False\<rparr>,
      delivered = []\<rparr>"
proof -
  have "detectSuddenStop (adjustedThresholds 1) 100000 100005
          (detectionInput highSensitivity zeroSample aboutToStopWorld) =
        (Some (Anomaly SUDDEN_STOP HIGH),
         (detectionInput highSensitivity zeroSample aboutToStopWorld)
           \<lparr>lastSuddenStopTime := 100005, highMovementDuration := 0,
             walkingSessionActive := False\<rparr>)"
    unfolding detectionInput_aboutToStop
    by (simp add: detectSuddenStop_def newService_def slice_windows windows_aboutToStop
        foldl_mean means_concrete movementDropExceeds_def adjustedThresholds_sel Let_def)
  then have "classifyWindow highSensitivity 100000 100005
      (aboutToStopWorld\<lparr>service := (service aboutToStopWorld)
         \<lparr>sensorDataBuffer := replicate 24 zeroSample @ [zeroSample]\<rparr>\<rparr>) =
     \<lparr>listeners = [],
      latestActivityState =
        \<lparr>name = IDLE, confidence = 95 / 100, isProtectionActive = True,
         anomaly = Some (Anomaly SUDDEN_STOP HIGH)\<rparr>,
      service = newService
        \<lparr>sensorDataBuffer := replicate 24 zeroSample @ [zeroSample],
         settings := Some highSensitivity, isMonitoring := True,
         movementHistory := replicate 47 20 @ [0, 0, 0], highMovementDuration := 0,
         consecutiveStillReadings := 3, lastSuddenStopTime := 100005,
         walkingSessionActive := False\<rparr>,
      delivered = []\<rparr>"
    unfolding detectionInput_def aboutToStop_tick(3) classifyWindow_def highSensitivity_sel
    by (simp add: Let_def split_beta detectionInput_aboutToStop [unfolded detectionInput_def aboutToStop_tick(3)]
        aboutToStopWorld_def beforeDetection_def totalMovement_rest classify_rest toFixed2_rest
        highSensitivity_def smoothActivity_def pushMovement_def trackSession_def newService_def)
  then show ?thesis
    unfolding firedWorld_def predictActivity_classifies [OF aboutToStop_tick(1,2)] aboutToStop_tick(3)
    by (simp add: fst_notifyAndReturn notifyListeners_def classifyWindow_parts aboutToStopWorld_def)
qed










text \<open>
  C10. The anomaly published by a completed classification tick does not depend on the
  state published before it. When a completed tick publishes an anomaly, the next
  completed tick publishes none, whatever happens in between that is not a completed
  classification tick (rejected samples, calibration ticks, \<open>stop\<close>, \<open>start\<close>,
  a settings refresh, subscriptions); and the trigger was stamped and the session
  counters reset by that very tick.
\<close>

theorem anomaly_is_one_tick_pulse:
  assumes "classificationTick d w"
  shows "anomaly (latestActivityState
                    (fst (predictActivity (Some d) now now' (w\<lparr>latestActivityState := st\<rparr>)))) =
         anomaly (latestActivityState (fst (predictActivity (Some d) now now' w))) \<and>
         (anomaly (latestActivityState (fst (predictActivity (Some d) now now' w))) \<noteq> None \<longrightarrow>
          noClassification es (fst (predictActivity (Some d) now now' w)) \<longrightarrow>
          classificationTick d2 (run es (fst (predictActivity (Some d) now now' w))) \<longrightarrow>
          anomaly (latestActivityState
                     (fst (predictActivity (Some d2) t t'
                             (run es (fst (predictActivity (Some d) now now' w)))))) = None) \<and>
         (anomaly (latestActivityState (fst (predictActivity (Some d) now now' w))) \<noteq> None \<longrightarrow>
          lastSuddenStopTime (service (fst (predictActivity (Some d) now now' w))) = now' \<and>
          highMovementDuration (service (fst (predictActivity (Some d) now now' w))) = 0 \<and>
          \<not> walkingSessionActive (service (fst (predictActivity (Some d) now now' w))))"
proof -
  obtain s where s: "settings (service w) = Some s"
    using assms by (auto simp add: classificationTick_def)
  let ?w1 = "fst (predictActivity (Some d) now now' w)"
  have tick': "classificationTick d (w\<lparr>latestActivityState := st\<rparr>)"
    using assms by (simp add: classificationTick_ignores_published)
  have s': "settings (service (w\<lparr>latestActivityState := st\<rparr>)) = Some s"
    using s by simp
  have recomputed: "anomaly (latestActivityState
                    (fst (predictActivity (Some d) now now' (w\<lparr>latestActivityState := st\<rparr>)))) =
         anomaly (latestActivityState ?w1)"
    unfolding tick_anomaly [OF tick' s'] tick_anomaly [OF assms s]
    by (simp add: beforeDetection_def)
  have pulse: "anomaly (latestActivityState
                     (fst (predictActivity (Some d2) t t' (run es ?w1)))) = None"
    if fired: "anomaly (latestActivityState ?w1) \<noteq> None"
      and quiet: "noClassification es ?w1"
      and next_tick: "classificationTick d2 (run es ?w1)"
  proof -
    have "highMovementDuration (service ?w1) = 0"
      using fired unfolding tick_anomaly [OF assms s] tick_service [OF assms s]
      by (rule detectSuddenStop_fired(1))
    then have "highMovementDuration (service (run es ?w1)) < 49"
      using noClassification_duration [OF quiet] by simp
    with next_tick show ?thesis by (rule tick_after_short_duration)
  qed
  have stamped:
    "lastSuddenStopTime (service ?w1) = now' \<and> highMovementDuration (service ?w1) = 0 \<and>
     \<not> walkingSessionActive (service ?w1)"
    if fired: "anomaly (latestActivityState ?w1) \<noteq> None"
    using fired unfolding tick_anomaly [OF assms s] tick_service [OF assms s]
    by (simp add: detectSuddenStop_fired)
  from recomputed pulse stamped show ?thesis by blast
qed

theorem anomaly_is_one_tick_pulse_witness:
  "classificationTick zeroSample aboutToStopWorld \<and>
   anomaly (latestActivityState (fst (predictActivity (Some zeroSample) 100000 100005 aboutToStopWorld)))
     \<noteq> None \<and>
   noClassification [Sample (Some brokenSample) 100100 100100]
     (fst (predictActivity (Some zeroSample) 100000 100005 aboutToStopWorld)) \<and>
   classificationTick zeroSample
     (run [Sample (Some brokenSample) 100100 100100]
        (fst (predictActivity (Some zeroSample) 100000 100005 aboutToStopWorld))) \<and>
   anomaly (latestActivityState
     (fst (predictActivity (Some zeroSample) 100200 100200
        (run [Sample (Some brokenSample) 100100 100100]
           (fst (predictActivity (Some zeroSample) 100000 100005 aboutToStopWorld)))))) = None"
proof -
  have broken: "\<not> acceptedSample brokenSample"
    by (simp add: acceptedSample_def missingOrNonFinite_def brokenSample_def)
  have quiet: "noClassification [Sample (Some brokenSample) 100100 100100] firedWorld"
    using broken by (simp add: classificationTick_def)
  have same: "run [Sample (Some brokenSample) 100100 100100] firedWorld = firedWorld"
    using broken by (simp add: predictActivity_rejects)
  have next_tick: "classificationTick zeroSample firedWorld"
    by (simp add: firedWorld_eq newService_def classificationTick_def accepted_concrete
        SENSOR_DATA_BUFFER_SIZE_def)
  have fired: "anomaly (latestActivityState firedWorld) \<noteq> None"
    by (simp add: firedWorld_eq)
  show ?thesis
    using anomaly_is_one_tick_pulse
      [where d = zeroSample and w = aboutToStopWorld and now = 100000 and now' = 100005
         and es = "[Sample (Some brokenSample) 100100 100100]" and ?d2.0 = zeroSample
         and t = 100200 and t' = 100200]
      aboutToStop_tick(1) quiet same next_tick fired
    unfolding firedWorld_def by simp
qed

subsection \<open>Smoothing of transitions\<close>














end
